theory Spec2Isabelle
  imports Main
begin

section \<open>Request data\<close>

text \<open>
  A request body (\<open>req.body\<close>) and a query string (\<open>req.query\<close>) are objects
  whose fields hold JSON scalars. A field that is absent reads as \<open>undefined\<close>,
  which is \<open>None\<close> here. The elements of a \<open>JStr\<close> stand for the UTF-16 code
  units that \<open>.length\<close> counts.
\<close>

datatype jsval = JNull | JBool bool | JNum int | JStr string

type_synonym fields = "string \<Rightarrow> jsval option"

text \<open>The test \<open>!x\<close> of JavaScript is \<open>\<not> truthy x\<close>.\<close>

fun truthy :: "jsval option \<Rightarrow> bool" where
  "truthy None = False"
| "truthy (Some JNull) = False"
| "truthy (Some (JBool b)) = b"
| "truthy (Some (JNum n)) = (n \<noteq> 0)"
| "truthy (Some (JStr s)) = (s \<noteq> [])"

datatype exn = TypeError | DbRejection | BcryptError

text \<open>
  The property read \<open>x.length\<close>: a \<open>TypeError\<close> on \<open>undefined\<close> and
  \<open>null\<close>, the number of code units of a string, and \<open>undefined\<close>
  (\<open>Inr None\<close>) on a boolean or a number.
\<close>

fun jsLength :: "jsval option \<Rightarrow> exn + nat option" where
  "jsLength None = Inl TypeError"
| "jsLength (Some JNull) = Inl TypeError"
| "jsLength (Some (JStr s)) = Inr (Some (length s))"
| "jsLength (Some (JBool b)) = Inr None"
| "jsLength (Some (JNum n)) = Inr None"

text \<open>
  The condition \<open>x.length < 8 || x.length > 25\<close> of \<open>register\<close> and
  \<open>resetPassword\<close>. A comparison with \<open>undefined\<close> is false.
\<close>

definition lengthOutOfRange :: "jsval option \<Rightarrow> exn + bool" where
  "lengthOutOfRange x =
     (case jsLength x of
        Inl e \<Rightarrow> Inl e
      | Inr None \<Rightarrow> Inr False
      | Inr (Some n) \<Rightarrow> Inr (n < 8 \<or> n > 25))"

section \<open>Documents and collections\<close>

text \<open>
  Modelled from the spec: the schemas of \<open>User\<close>, \<open>UserToken\<close>,
  \<open>EventAttendee\<close> and \<open>Event\<close> and the enumeration \<open>UserRole\<close> (the
  files under \<open>models/\<close>). A user has an email, a stored password, a role
  (\<open>Guest\<close>, \<open>Admin\<close>, ...), the flag \<open>emailVerified\<close> and an activity flag; a
  token record is keyed by a user id and a token; an event has the flag \<open>isActive\<close>
  and an end date (in milliseconds; \<open>None\<close> when it is missing); an attendee record
  links a user to an event and has an approval that is true, false or absent. The
  controller filters attendee records by \<open>userId\<close> and the service populates the
  paths \<open>user\<close> and \<open>event\<close>: the record keeps the two ids, and the populated
  documents belong to the view of the service below.
\<close>

datatype UserRole = Guest | Admin | OtherRole string

record user =
  uid :: string
  email :: string
  password :: string
  role :: UserRole
  emailVerified :: bool
  userIsActive :: bool

record userToken =
  userId :: string
  token :: string

record event =
  eventId :: string
  isActive :: bool
  endDate :: "int option"

record eventAttendee =
  attendeeId :: string
  attendeeUserId :: string
  attendeeEventId :: string
  isApproved :: "bool option"

record store =
  users :: "user list"
  userTokens :: "userToken list"
  eventAttendees :: "eventAttendee list"
  events :: "event list"

text \<open>
  A collection is the list of its documents in natural order. \<open>findOne\<close> returns the
  first document that matches, \<open>updateOne\<close> changes it and \<open>deleteOne\<close> removes it;
  none of them touches a later document that matches too.
\<close>

definition findOne :: "('a \<Rightarrow> bool) \<Rightarrow> 'a list \<Rightarrow> 'a option" where
  "findOne p xs = find p xs"

fun updateOne :: "('a \<Rightarrow> bool) \<Rightarrow> ('a \<Rightarrow> 'a) \<Rightarrow> 'a list \<Rightarrow> 'a list" where
  "updateOne p f [] = []"
| "updateOne p f (x # xs) = (if p x then f x # xs else x # updateOne p f xs)"

fun deleteOne :: "('a \<Rightarrow> bool) \<Rightarrow> 'a list \<Rightarrow> 'a list" where
  "deleteOne p [] = []"
| "deleteOne p (x # xs) = (if p x then xs else x # deleteOne p xs)"

text \<open>A filter value matches a stored string field when it is that string.\<close>

definition matches :: "jsval option \<Rightarrow> string \<Rightarrow> bool" where
  "matches v s = (v = Some (JStr s))"

section \<open>The environment of a request\<close>

text \<open>
  The database calls of the controllers and the service. A call may reject (a lost
  connection, a value that the schema cannot cast); \<open>rejects\<close> says which calls do
  during the request at hand.
\<close>

datatype dbcall =
    UserFindOne | UserFindById | UserFindByIdAndUpdate | UserDeleteOne
  | UserTokenFindOne | UserTokenDeleteOne
  | EventAttendeeFind | EventAttendeeFindById
  | EventAttendeeFindByIdAndUpdate | EventAttendeeFindByIdAndDelete

text \<open>
  What \<open>User.create\<close> rejects with: a \<open>mongoose.Error.ValidationError\<close>, whose
  \<open>errors\<close> give a \<open>kind\<close> for each path, or another error with its \<open>code\<close>,
  if it has one.
\<close>

datatype createError =
    ValidationError "(string \<times> string) list"
  | ServerError "int option"

datatype jwtError = JsonWebTokenError | TokenExpiredError

datatype emailError = EmailError string

text \<open>
  What a handler takes from other modules and from libraries is a field of the
  environment of the request:
  \<^item> \<open>userCreate\<close> is \<open>User.create\<close> with the schema of \<open>User\<close> (validation,
    defaults, hooks, the new \<open>_id\<close>): from the document passed and the collection it
    gives the new document, or the error that the call rejects with;
  \<^item> \<open>passwordOnUpdate\<close> is what the schema of \<open>User\<close> stores when
    \<open>findByIdAndUpdate\<close> sets \<open>password\<close> to a value;
  \<^item> \<open>bcryptCompare\<close>, \<open>jwtSign\<close> and \<open>jwtVerify\<close> are the library functions
    (\<open>jwtVerify\<close> gives the \<open>id\<close> of the decoded payload, if the payload has one);
  \<^item> the four \<open>JWT_\<close> values are read from the process environment;
  \<^item> \<open>sendVerifyEmail\<close> and \<open>sendResetPasswordEmail\<close> are the email service: they
    may add to the collection of tokens, and they resolve (\<open>None\<close>) or throw;
  \<^item> \<open>now\<close> is the value of \<open>new Date()\<close>, in milliseconds.
\<close>

record env =
  rejects :: "dbcall \<Rightarrow> bool"
  userCreate :: "fields \<Rightarrow> user list \<Rightarrow> createError + user"
  passwordOnUpdate :: "jsval option \<Rightarrow> string"
  bcryptCompare :: "string \<Rightarrow> string \<Rightarrow> bool"
  jwtSign :: "string \<Rightarrow> string \<Rightarrow> string \<Rightarrow> string"
  jwtVerify :: "string \<Rightarrow> string \<Rightarrow> jwtError + string option"
  JWT_ACCESS_SECRET :: string
  JWT_REFRESH_SECRET :: string
  JWT_ACCESS_EXPIRATION :: string
  JWT_REFRESH_EXPIRATION :: string
  sendVerifyEmail :: "string \<Rightarrow> string \<Rightarrow> userToken list \<Rightarrow> emailError option \<times> userToken list"
  sendResetPasswordEmail :: "string \<Rightarrow> string \<Rightarrow> userToken list \<Rightarrow> emailError option \<times> userToken list"
  now :: int

text \<open>
  \<open>asyncWrapper\<close> turns the promise of a database call into the pair
  \<open>[error, value]\<close>: \<open>Inl\<close> is a pair with an error.
\<close>

definition asyncWrapper :: "env \<Rightarrow> dbcall \<Rightarrow> 'a \<Rightarrow> exn + 'a" where
  "asyncWrapper e c v = (if rejects e c then Inl DbRejection else Inr v)"

section \<open>Responses\<close>

text \<open>
  A handler ends in one of three ways: it passes an error to \<open>next\<close>, it sends a JSON
  body with a status, or it throws. \<open>AppError\<close> and \<open>DataValidationError\<close> carry
  the status code they were built with, if one was given.
\<close>

datatype appError =
    AppError string "nat option"
  | DataValidationError createError "nat option"
  | NotFoundError string
  | Forwarded emailError

datatype jsonField = FStr string | FUser user

datatype response =
    Next appError
  | Json nat "(string \<times> jsonField) list"
  | Threw exn

section \<open>Token service\<close>

definition generateAccessToken :: "env \<Rightarrow> user \<Rightarrow> string" where
  "generateAccessToken e u = jwtSign e (uid u) (JWT_ACCESS_SECRET e) (JWT_ACCESS_EXPIRATION e)"

definition generateRefreshToken :: "env \<Rightarrow> user \<Rightarrow> string" where
  "generateRefreshToken e u = jwtSign e (uid u) (JWT_REFRESH_SECRET e) (JWT_REFRESH_EXPIRATION e)"

text \<open>
  \<open>verifyToken\<close> of \<open>refresh\<close>: \<open>jwt.verify\<close> answers a token that is not a string
  with a \<open>JsonWebTokenError\<close>.
\<close>

definition verifyToken :: "env \<Rightarrow> jsval option \<Rightarrow> string \<Rightarrow> jwtError + string option" where
  "verifyToken e t secret =
     (case t of Some (JStr s) \<Rightarrow> jwtVerify e s secret | _ \<Rightarrow> Inl JsonWebTokenError)"

section \<open>Auth controller\<close>

definition databaseError :: appError where
  "databaseError = AppError ''Database error. Please try again later.'' None"

definition tokensBody :: "env \<Rightarrow> user \<Rightarrow> (string \<times> jsonField) list" where
  "tokensBody e u =
     [(''accessToken'', FStr (generateAccessToken e u)),
      (''refreshToken'', FStr (generateRefreshToken e u))]"

text \<open>\<open>bcrypt.compare\<close> rejects when the data is not a string.\<close>

definition passwordMatch :: "env \<Rightarrow> jsval option \<Rightarrow> string \<Rightarrow> exn + bool" where
  "passwordMatch e p h =
     (case p of Some (JStr s) \<Rightarrow> Inr (bcryptCompare e s h) | _ \<Rightarrow> Inl BcryptError)"

definition login :: "env \<Rightarrow> fields \<Rightarrow> store \<Rightarrow> response \<times> store" where
  "login e body s =
     (if \<not> truthy (body ''email'') \<or> \<not> truthy (body ''password'')
      then (Next (AppError ''Must provide username and password for login.'' (Some 400)), s)
      else case asyncWrapper e UserFindOne
                  (findOne (\<lambda>u. matches (body ''email'') (email u)) (users s)) of
        Inl error \<Rightarrow> (Next databaseError, s)
      | Inr None \<Rightarrow> (Next (AppError ''Invalid email or password.'' (Some 401)), s)
      | Inr (Some u) \<Rightarrow>
          if \<not> emailVerified u
          then (Next (AppError ''Must verify email before logging in.'' (Some 403)), s)
          else case passwordMatch e (body ''password'') (password u) of
            Inl x \<Rightarrow> (Threw x, s)
          | Inr False \<Rightarrow> (Next (AppError ''Invalid email or password.'' (Some 401)), s)
          | Inr True \<Rightarrow> (Json 200 (tokensBody e u), s))"

text \<open>
  \<open>EventAttendee.find({ userId }).populate("event")\<close>: the attendee records of the
  user, each with the event it refers to, or with \<open>null\<close> when there is no such event.
\<close>

definition populateEvent :: "store \<Rightarrow> eventAttendee \<Rightarrow> event option" where
  "populateEvent s a = findOne (\<lambda>ev. eventId ev = attendeeEventId a) (events s)"

definition attendeesOfUser :: "store \<Rightarrow> string \<Rightarrow> (eventAttendee \<times> event option) list" where
  "attendeesOfUser s i =
     map (\<lambda>a. (a, populateEvent s a)) (filter (\<lambda>a. attendeeUserId a = i) (eventAttendees s))"

text \<open>
  The predicate of \<open>some\<close>:
  \<open>attendee?.event?.isActive && new Date(attendee?.event?.endDate) >= today\<close>.
  A date that is missing is an invalid date, and its comparison is false.
\<close>

definition validEvent :: "int \<Rightarrow> (eventAttendee \<times> event option) \<Rightarrow> bool" where
  "validEvent today ae =
     (case snd ae of
        None \<Rightarrow> False
      | Some ev \<Rightarrow> isActive ev \<and> (case endDate ev of None \<Rightarrow> False | Some d \<Rightarrow> d \<ge> today))"

definition loginMobile :: "env \<Rightarrow> fields \<Rightarrow> store \<Rightarrow> response \<times> store" where
  "loginMobile e body s =
     (if \<not> truthy (body ''email'') \<or> \<not> truthy (body ''password'')
      then (Next (AppError ''Must provide username and password for login.'' (Some 400)), s)
      else case asyncWrapper e UserFindOne
                  (findOne (\<lambda>u. matches (body ''email'') (email u)) (users s)) of
        Inl error \<Rightarrow> (Next databaseError, s)
      | Inr None \<Rightarrow> (Next (AppError ''Invalid email or password.'' (Some 401)), s)
      | Inr (Some u) \<Rightarrow>
          if \<not> emailVerified u
          then (Next (AppError ''Must verify email before logging in.'' (Some 403)), s)
          else case passwordMatch e (body ''password'') (password u) of
            Inl x \<Rightarrow> (Threw x, s)
          | Inr False \<Rightarrow> (Next (AppError ''Invalid email or password.'' (Some 401)), s)
          | Inr True \<Rightarrow>
              if role u = Guest
              then case asyncWrapper e EventAttendeeFind (attendeesOfUser s (uid u)) of
                Inl attendeeError \<Rightarrow> (Next databaseError, s)
              | Inr foundAttendees \<Rightarrow>
                  let today = now e;
                      hasValidEvent = list_ex (validEvent today) foundAttendees
                  in if \<not> hasValidEvent
                     then (Next (AppError
                       ''User must have an active event with a valid end date to log in.''
                       (Some 403)), s)
                     else (Json 200 (tokensBody e u), s)
              else (Json 200 (tokensBody e u), s))"

text \<open>The first statements of \<open>register\<close>: the two \<open>delete\<close>s on the body.\<close>

definition registerUserData :: "fields \<Rightarrow> fields" where
  "registerUserData body = (body(''isActive'' := None))(''role'' := None)"

definition createFailure :: "createError \<Rightarrow> appError" where
  "createFailure error =
     (case error of
        ValidationError errors \<Rightarrow>
          (case find (\<lambda>err. snd err = ''required'') errors of
             Some requiredError \<Rightarrow> DataValidationError error (Some 400)
           | None \<Rightarrow> DataValidationError error None)
      | ServerError code \<Rightarrow>
          if code = Some 11000
          then AppError ''Email already exists. Please use a different email.'' (Some 409)
          else databaseError)"

definition register :: "env \<Rightarrow> fields \<Rightarrow> store \<Rightarrow> response \<times> store" where
  "register e body s =
     (let userData = registerUserData body in
      case lengthOutOfRange (userData ''password'') of
        Inl x \<Rightarrow> (Threw x, s)
      | Inr True \<Rightarrow>
          (Next (AppError ''Password must be between 8 and 25 characters long.'' (Some 422)), s)
      | Inr False \<Rightarrow>
          (case userCreate e userData (users s) of
             Inl error \<Rightarrow> (Next (createFailure error), s)
           | Inr newUser \<Rightarrow>
               let s1 = s\<lparr>users := users s @ [newUser]\<rparr>;
                   accessToken = generateAccessToken e newUser;
                   refreshToken = generateRefreshToken e newUser;
                   sent = sendVerifyEmail e (uid newUser) (email newUser) (userTokens s1);
                   s2 = s1\<lparr>userTokens := snd sent\<rparr>
               in case fst sent of
                    Some emailError \<Rightarrow>
                      if rejects e UserDeleteOne then (Threw DbRejection, s2)
                      else (Next (Forwarded emailError),
                            s2\<lparr>users := deleteOne (\<lambda>u. uid u = uid newUser) (users s2)\<rparr>)
                  | None \<Rightarrow>
                      (Json 201 [(''user'', FUser newUser),
                                 (''accessToken'', FStr accessToken),
                                 (''refreshToken'', FStr refreshToken)], s2)))"

definition refresh :: "env \<Rightarrow> fields \<Rightarrow> store \<Rightarrow> response \<times> store" where
  "refresh e body s =
     (if \<not> truthy (body ''refreshToken'')
      then (Next (AppError ''Refresh token required.'' (Some 400)), s)
      else case verifyToken e (body ''refreshToken'') (JWT_REFRESH_SECRET e) of
        Inl error \<Rightarrow> (Next (AppError ''Invalid or expired refresh token.'' (Some 403)), s)
      | Inr decoded \<Rightarrow>
          (case asyncWrapper e UserFindById
                  (findOne (\<lambda>u. decoded = Some (uid u)) (users s)) of
             Inl userError \<Rightarrow> (Next databaseError, s)
           | Inr None \<Rightarrow> (Next (AppError ''User not found.'' (Some 404)), s)
           | Inr (Some u) \<Rightarrow>
               (Json 200 [(''accessToken'', FStr (generateAccessToken e u))], s)))"

text \<open>
  \<open>UserToken.findOne({ userId: id, token })\<close> and
  \<open>UserToken.deleteOne({ userId: id, token })\<close> use the same filter.
\<close>

definition tokenFilter :: "jsval option \<Rightarrow> jsval option \<Rightarrow> userToken \<Rightarrow> bool" where
  "tokenFilter i t ut = (matches i (userId ut) \<and> matches t (token ut))"

definition verify :: "env \<Rightarrow> fields \<Rightarrow> store \<Rightarrow> response \<times> store" where
  "verify e query s =
     (if \<not> truthy (query ''token'') \<or> \<not> truthy (query ''id'')
      then (Next (AppError ''Invalid verification link.'' (Some 400)), s)
      else case asyncWrapper e UserTokenFindOne
                  (findOne (tokenFilter (query ''id'') (query ''token'')) (userTokens s)) of
        Inl error \<Rightarrow> (Next databaseError, s)
      | Inr None \<Rightarrow> (Next (AppError ''Invalid or expired verification link.'' (Some 400)), s)
      | Inr (Some ut) \<Rightarrow>
          (case asyncWrapper e UserFindByIdAndUpdate
                  (findOne (\<lambda>u. matches (query ''id'') (uid u)) (users s)) of
             Inl userError \<Rightarrow>
               (Next (AppError ''Database error. Please try again later.'' (Some 500)), s)
           | Inr None \<Rightarrow> (Next (NotFoundError ''User not found.''), s)
           | Inr (Some u) \<Rightarrow>
               (Json 200 [(''message'', FStr ''Email verified successfully.'')],
                s\<lparr>users := updateOne (\<lambda>u. matches (query ''id'') (uid u))
                                       (\<lambda>u. u\<lparr>emailVerified := True\<rparr>) (users s)\<rparr>)))"

definition forgotPassword :: "env \<Rightarrow> fields \<Rightarrow> store \<Rightarrow> response \<times> store" where
  "forgotPassword e body s =
     (if \<not> truthy (body ''email'')
      then (Next (AppError ''Email is required.'' (Some 400)), s)
      else case asyncWrapper e UserFindOne
                  (findOne (\<lambda>u. matches (body ''email'') (email u)) (users s)) of
        Inl error \<Rightarrow> (Next databaseError, s)
      | Inr None \<Rightarrow> (Next (NotFoundError ''No user found with that email address.''), s)
      | Inr (Some u) \<Rightarrow>
          let sent = sendResetPasswordEmail e (uid u) (email u) (userTokens s);
              s1 = s\<lparr>userTokens := snd sent\<rparr>
          in case fst sent of
               Some emailError \<Rightarrow> (Next (Forwarded emailError), s1)
             | None \<Rightarrow>
                 (Json 200 [(''message'', FStr ''Password reset email sent successfully.'')], s1))"

definition resetPassword :: "env \<Rightarrow> fields \<Rightarrow> store \<Rightarrow> response \<times> store" where
  "resetPassword e body s =
     (if \<not> truthy (body ''id'') \<or> \<not> truthy (body ''token'') \<or> \<not> truthy (body ''newPassword'')
      then (Next (AppError
        ''Invalid request. Please provide id, token, and newPassword in the request body.''
        (Some 400)), s)
      else case lengthOutOfRange (body ''newPassword'') of
        Inl x \<Rightarrow> (Threw x, s)
      | Inr True \<Rightarrow>
          (Next (AppError ''Password must be between 8 and 25 characters long.'' (Some 422)), s)
      | Inr False \<Rightarrow>
          (case asyncWrapper e UserTokenFindOne
                  (findOne (tokenFilter (body ''id'') (body ''token'')) (userTokens s)) of
             Inl error \<Rightarrow> (Next databaseError, s)
           | Inr None \<Rightarrow> (Next (AppError ''Invalid or expired token.'' (Some 400)), s)
           | Inr (Some ut) \<Rightarrow>
               (case asyncWrapper e UserFindByIdAndUpdate
                       (findOne (\<lambda>u. matches (body ''id'') (uid u)) (users s)) of
                  Inl userError \<Rightarrow> (Next databaseError, s)
                | Inr None \<Rightarrow> (Next (NotFoundError ''User not found.''), s)
                | Inr (Some u) \<Rightarrow>
                    let s1 = s\<lparr>users := updateOne (\<lambda>u. matches (body ''id'') (uid u))
                                 (\<lambda>u. u\<lparr>password := passwordOnUpdate e (body ''newPassword'')\<rparr>)
                                 (users s)\<rparr>
                    in if rejects e UserTokenDeleteOne then (Threw DbRejection, s1)
                       else (Json 200 [(''message'', FStr ''Password reset successfully.'')],
                             s1\<lparr>userTokens :=
                                   deleteOne (tokenFilter (body ''id'') (body ''token''))
                                     (userTokens s1)\<rparr>))))"

section \<open>Attendee service\<close>

text \<open>
  A document as a query returns it. The paths \<open>user\<close> and \<open>event\<close> hold the other
  document (\<open>Joined\<close>, with \<open>None\<close> for a reference to a document that does not
  exist) once \<open>populate\<close> has run for the path, and are \<open>NotJoined\<close> before.
\<close>

datatype 'a joined = NotJoined | Joined "'a option"

record attendeeView =
  attendee :: eventAttendee
  user :: "user joined"
  event :: "event joined"

definition unpopulated :: "eventAttendee \<Rightarrow> attendeeView" where
  "unpopulated a = \<lparr>attendee = a, user = NotJoined, event = NotJoined\<rparr>"

definition populateUserPath :: "store \<Rightarrow> attendeeView \<Rightarrow> attendeeView" where
  "populateUserPath s v =
     v\<lparr>user := Joined (findOne (\<lambda>u. uid u = attendeeUserId (attendee v)) (users s))\<rparr>"

definition populateEventPath :: "store \<Rightarrow> attendeeView \<Rightarrow> attendeeView" where
  "populateEventPath s v = v\<lparr>event := Joined (populateEvent s (attendee v))\<rparr>"

text \<open>
  The filter of \<open>getAllAttendees\<close>:
  \<open>isApproved !== undefined ? { isApproved } : {}\<close>.
\<close>

definition approvalFilter :: "bool option \<Rightarrow> eventAttendee \<Rightarrow> bool" where
  "approvalFilter approved a =
     (case approved of None \<Rightarrow> True | Some b \<Rightarrow> isApproved a = Some b)"

definition getAllAttendees :: "env \<Rightarrow> bool option \<Rightarrow> store \<Rightarrow> exn + attendeeView list" where
  "getAllAttendees e approved s =
     (if rejects e EventAttendeeFind then Inl DbRejection
      else Inr (map (\<lambda>a. populateEventPath s (populateUserPath s (unpopulated a)))
                  (filter (approvalFilter approved) (eventAttendees s))))"

definition getAttendeeById :: "env \<Rightarrow> string \<Rightarrow> store \<Rightarrow> exn + attendeeView option" where
  "getAttendeeById e i s =
     (if rejects e EventAttendeeFindById then Inl DbRejection
      else Inr (map_option (\<lambda>a. populateEventPath s (populateUserPath s (unpopulated a)))
                  (findOne (\<lambda>a. attendeeId a = i) (eventAttendees s))))"

definition updateAttendeeApprovalStatus ::
  "env \<Rightarrow> string \<Rightarrow> bool \<Rightarrow> store \<Rightarrow> (exn + attendeeView option) \<times> store" where
  "updateAttendeeApprovalStatus e i approved s =
     (if rejects e EventAttendeeFindByIdAndUpdate then (Inl DbRejection, s)
      else
        let s1 = s\<lparr>eventAttendees :=
                     updateOne (\<lambda>a. attendeeId a = i) (\<lambda>a. a\<lparr>isApproved := Some approved\<rparr>)
                       (eventAttendees s)\<rparr>
        in (Inr (map_option (\<lambda>a. populateEventPath s1 (populateUserPath s1 (unpopulated a)))
                   (findOne (\<lambda>a. attendeeId a = i) (eventAttendees s1))), s1))"

definition deleteAttendeeById ::
  "env \<Rightarrow> string \<Rightarrow> store \<Rightarrow> (exn + attendeeView option) \<times> store" where
  "deleteAttendeeById e i s =
     (if rejects e EventAttendeeFindByIdAndDelete then (Inl DbRejection, s)
      else (Inr (map_option unpopulated (findOne (\<lambda>a. attendeeId a = i) (eventAttendees s))),
            s\<lparr>eventAttendees := deleteOne (\<lambda>a. attendeeId a = i) (eventAttendees s)\<rparr>))"

text \<open>The joined view of a record: both paths hold what they refer to.\<close>

definition joinedView :: "store \<Rightarrow> attendeeView \<Rightarrow> bool" where
  "joinedView s v =
     (user v = Joined (findOne (\<lambda>u. uid u = attendeeUserId (attendee v)) (users s)) \<and>
      event v = Joined (findOne (\<lambda>ev. eventId ev = attendeeEventId (attendee v)) (events s)))"

section \<open>Example values\<close>

text \<open>
  A small environment and a small store, on which the theorems below are evaluated.
  The stand-in for bcrypt hashes a password by putting \<open>#\<close> in front of it; the
  stand-in for a signed token is the secret, a dot and the user id.
\<close>

definition exCreate :: "fields \<Rightarrow> user list \<Rightarrow> createError + user" where
  "exCreate d us =
     (case (d ''email'', d ''password'') of
        (Some (JStr em), Some (JStr pw)) \<Rightarrow>
          if list_ex (\<lambda>u. email u = em) us then Inl (ServerError (Some 11000))
          else Inr \<lparr>uid = ''u9'', email = em, password = CHR ''#'' # pw, role = Guest,
                    emailVerified = False, userIsActive = True\<rparr>
      | _ \<Rightarrow> Inl (ValidationError [(''email'', ''required'')]))"

definition exVerify :: "string \<Rightarrow> string \<Rightarrow> jwtError + string option" where
  "exVerify t secret =
     (if take (length secret + 1) t = secret @ ''.''
      then Inr (Some (drop (length secret + 1) t)) else Inl JsonWebTokenError)"

definition exEnv :: env where
  "exEnv = \<lparr>rejects = (\<lambda>c. False),
            userCreate = exCreate,
            passwordOnUpdate = (\<lambda>v. case v of Some (JStr p) \<Rightarrow> CHR ''#'' # p | _ \<Rightarrow> []),
            bcryptCompare = (\<lambda>p h. h = CHR ''#'' # p),
            jwtSign = (\<lambda>i secret expiresIn. secret @ ''.'' @ i),
            jwtVerify = exVerify,
            JWT_ACCESS_SECRET = ''A'',
            JWT_REFRESH_SECRET = ''R'',
            JWT_ACCESS_EXPIRATION = ''15m'',
            JWT_REFRESH_EXPIRATION = ''7d'',
            sendVerifyEmail = (\<lambda>i em ts. (None, ts @ [\<lparr>userId = i, token = ''t9''\<rparr>])),
            sendResetPasswordEmail = (\<lambda>i em ts. (None, ts @ [\<lparr>userId = i, token = ''r9''\<rparr>])),
            now = 1000\<rparr>"

text \<open>The same environment with an email service that throws.\<close>

definition exEnvNoMail :: env where
  "exEnvNoMail = exEnv\<lparr>sendVerifyEmail := (\<lambda>i em ts. (Some (EmailError ''smtp''), ts))\<rparr>"

definition exGuest :: user where
  "exGuest = \<lparr>uid = ''u1'', email = ''g@x.io'', password = ''#guestpass'', role = Guest,
              emailVerified = True, userIsActive = True\<rparr>"

definition exAdmin :: user where
  "exAdmin = \<lparr>uid = ''u2'', email = ''a@x.io'', password = ''#adminpass'', role = Admin,
              emailVerified = True, userIsActive = True\<rparr>"

definition exNew :: user where
  "exNew = \<lparr>uid = ''u3'', email = ''n@x.io'', password = ''#newcomer'', role = Guest,
            emailVerified = False, userIsActive = True\<rparr>"

definition exAttendee :: eventAttendee where
  "exAttendee = \<lparr>attendeeId = ''a1'', attendeeUserId = ''u1'', attendeeEventId = ''e1'',
                 isApproved = None\<rparr>"

definition exStore :: store where
  "exStore = \<lparr>users = [exGuest, exAdmin, exNew],
              userTokens = [\<lparr>userId = ''u3'', token = ''t3''\<rparr>,
                            \<lparr>userId = ''u1'', token = ''t1''\<rparr>],
              eventAttendees = [exAttendee],
              events = [\<lparr>eventId = ''e1'', isActive = True, endDate = Some 2000\<rparr>]\<rparr>"

text \<open>A request object with the fields listed.\<close>

definition obj :: "(string \<times> jsval) list \<Rightarrow> fields" where
  "obj kvs = map_of kvs"

section \<open>Collections: lemmas\<close>

lemma find_updateOne:
  assumes "\<And>x. p (f x) = p x"
  shows "find p (updateOne p f xs) = map_option f (find p xs)"
  using assms by (induction xs) auto

lemma updateOne_idem:
  assumes "\<And>x. p (f x) = p x" and "\<And>x. f (f x) = f x"
  shows "updateOne p f (updateOne p f xs) = updateOne p f xs"
  using assms by (induction xs) auto

lemma deleteOne_append_fresh:
  assumes "\<forall>y \<in> set xs. \<not> p y" and "p x"
  shows "deleteOne p (xs @ [x]) = xs"
  using assms by (induction xs) auto

lemma find_None_iff_all: "find p xs = None \<longleftrightarrow> (\<forall>y \<in> set xs. \<not> p y)"
  by (induction xs) auto

lemma find_deleteOne_single:
  assumes "length (filter p xs) \<le> 1"
  shows "find p (deleteOne p xs) = None"
  using assms
proof (induction xs)
  case Nil
  then show ?case by simp
next
  case (Cons x xs)
  show ?case
  proof (cases "p x")
    case True
    with Cons.prems have "filter p xs = []" by simp
    then have "\<forall>y \<in> set xs. \<not> p y" by (simp add: filter_empty_conv)
    with True show ?thesis by (simp add: find_None_iff_all)
  next
    case False
    with Cons show ?thesis by simp
  qed
qed

section \<open>Registration\<close>

lemma registerUserData_password: "registerUserData body ''password'' = body ''password''"
  by (simp add: registerUserData_def)

text \<open>
  C6. A registration whose password is a string of fewer than 8 or more than 25 code
  units is answered with the error of status 422, and the store that \<open>register\<close>
  returns is the store it was given: nothing was created or written.
\<close>

theorem register_rejects_password_length:
  assumes "body ''password'' = Some (JStr p)"
    and "length p < 8 \<or> length p > 25"
  shows "register e body s =
    (Next (AppError ''Password must be between 8 and 25 characters long.'' (Some 422)), s)"
  using assms by (auto simp: register_def registerUserData_password lengthOutOfRange_def)

theorem register_rejects_password_length_witness:
  "register exEnv (obj [(''email'', JStr ''b@x.io''), (''password'', JStr ''short'')]) exStore =
    (Next (AppError ''Password must be between 8 and 25 characters long.'' (Some 422)), exStore)"
  using register_rejects_password_length
    [of "obj [(''email'', JStr ''b@x.io''), (''password'', JStr ''short'')]" "''short''" exEnv exStore]
  by (simp add: obj_def)

text \<open>
  C10. A registration whose body has no \<open>password\<close> field makes \<open>register\<close> throw a
  \<open>TypeError\<close> at the length check: no error is passed to \<open>next\<close>, no response is
  sent, and the store is untouched.
\<close>

theorem register_absent_password_throws:
  assumes "body ''password'' = None"
  shows "register e body s = (Threw TypeError, s)"
  using assms by (simp add: register_def registerUserData_password lengthOutOfRange_def)

theorem register_absent_password_throws_witness:
  "register exEnv (obj [(''email'', JStr ''b@x.io'')]) exStore = (Threw TypeError, exStore)"
  using register_absent_password_throws [of "obj [(''email'', JStr ''b@x.io'')]" exEnv exStore]
  by (simp add: obj_def)

text \<open>
  C3. \<open>register\<close> does not depend on the fields \<open>isActive\<close> and \<open>role\<close> of the
  body: two bodies that agree on every other field give the same response and the same
  store, and the document handed to \<open>User.create\<close> has neither field.
\<close>

theorem register_strips_isActive_role:
  assumes "\<forall>k. k \<noteq> ''isActive'' \<and> k \<noteq> ''role'' \<longrightarrow> body k = body' k"
  shows "register e body s = register e body' s \<and>
         registerUserData body ''isActive'' = None \<and> registerUserData body ''role'' = None"
proof -
  have "registerUserData body = registerUserData body'"
    using assms by (auto simp: registerUserData_def fun_eq_iff)
  then show ?thesis by (simp add: register_def registerUserData_def)
qed

theorem register_strips_isActive_role_witness:
  "register exEnv (obj [(''email'', JStr ''b@x.io''), (''password'', JStr ''longenough''),
       (''role'', JStr ''admin''), (''isActive'', JBool False)]) exStore =
   register exEnv (obj [(''email'', JStr ''b@x.io''), (''password'', JStr ''longenough'')]) exStore"
  using register_strips_isActive_role
    [of "obj [(''email'', JStr ''b@x.io''), (''password'', JStr ''longenough''),
       (''role'', JStr ''admin''), (''isActive'', JBool False)]"
      "obj [(''email'', JStr ''b@x.io''), (''password'', JStr ''longenough'')]" exEnv exStore]
  by (simp add: obj_def)

text \<open>
  C1. When the length check passes, \<open>User.create\<close> gives a new user (whose \<open>_id\<close>
  no stored user has), \<open>sendVerifyEmail\<close> throws and \<open>User.deleteOne\<close> does not
  reject, then \<open>register\<close> passes the error of the email service to \<open>next\<close>, no
  user with the new id is in the store afterwards, and the collection of users is the
  one before the request.
\<close>

theorem register_email_failure_deletes_user:
  assumes "lengthOutOfRange (body ''password'') = Inr False"
    and "userCreate e (registerUserData body) (users s) = Inr newUser"
    and "fst (sendVerifyEmail e (uid newUser) (email newUser) (userTokens s)) = Some err"
    and "\<not> rejects e UserDeleteOne"
    and "\<forall>u \<in> set (users s). uid u \<noteq> uid newUser"
  shows "fst (register e body s) = Next (Forwarded err) \<and>
         findOne (\<lambda>u. uid u = uid newUser) (users (snd (register e body s))) = None \<and>
         users (snd (register e body s)) = users s"
proof -
  let ?toks = "snd (sendVerifyEmail e (uid newUser) (email newUser) (userTokens s))"
  have del: "deleteOne (\<lambda>u. uid u = uid newUser) (users s @ [newUser]) = users s"
    using assms(5) by (intro deleteOne_append_fresh) auto
  have run: "register e body s = (Next (Forwarded err), s\<lparr>userTokens := ?toks\<rparr>)"
    using assms(1-4) del
    by (simp add: register_def registerUserData_password Let_def)
  have "find (\<lambda>u. uid u = uid newUser) (users s) = None"
    using assms(5) by (simp add: find_None_iff_all)
  with run show ?thesis by (simp add: findOne_def)
qed

theorem register_email_failure_deletes_user_witness:
  "fst (register exEnvNoMail
          (obj [(''email'', JStr ''b@x.io''), (''password'', JStr ''longenough'')]) exStore) =
     Next (Forwarded (EmailError ''smtp'')) \<and>
   users (snd (register exEnvNoMail
          (obj [(''email'', JStr ''b@x.io''), (''password'', JStr ''longenough'')]) exStore)) =
     users exStore"
  using register_email_failure_deletes_user
    [of "obj [(''email'', JStr ''b@x.io''), (''password'', JStr ''longenough'')]" exEnvNoMail exStore
        "\<lparr>uid = ''u9'', email = ''b@x.io'', password = ''#longenough'', role = Guest,
          emailVerified = False, userIsActive = True\<rparr>" "EmailError ''smtp''"]
  by (simp add: obj_def exEnvNoMail_def exEnv_def exStore_def exCreate_def exGuest_def exAdmin_def
      exNew_def lengthOutOfRange_def registerUserData_def)

section \<open>Mobile login\<close>

lemma matches_JStr: "matches (Some (JStr x)) y \<longleftrightarrow> y = x"
  by (auto simp: matches_def)


lemma hasValidEvent_iff:
  "list_ex (validEvent today) (attendeesOfUser s i) \<longleftrightarrow>
     (\<exists>a \<in> set (eventAttendees s). attendeeUserId a = i \<and>
        (\<exists>ev d. findOne (\<lambda>ev. eventId ev = attendeeEventId a) (events s) = Some ev \<and>
           isActive ev \<and> endDate ev = Some d \<and> d \<ge> today))"
proof -
  have one: "validEvent today (a, populateEvent s a) \<longleftrightarrow>
      (\<exists>ev d. findOne (\<lambda>ev. eventId ev = attendeeEventId a) (events s) = Some ev \<and>
           isActive ev \<and> endDate ev = Some d \<and> d \<ge> today)" for a
    by (cases "findOne (\<lambda>ev. eventId ev = attendeeEventId a) (events s)")
       (auto simp: validEvent_def populateEvent_def split: option.splits)
  have "list_ex (validEvent today) (attendeesOfUser s i) \<longleftrightarrow>
      (\<exists>a \<in> set (eventAttendees s). attendeeUserId a = i \<and> validEvent today (a, populateEvent s a))"
    by (auto simp: list_ex_iff attendeesOfUser_def)
  then show ?thesis by (simp add: one)
qed

text \<open>
  C4. A mobile login with the email of a stored user whose email is verified, and with
  a password that \<open>bcrypt.compare\<close> accepts. For a Guest: when no attendee record of
  the user refers to an event that is active and whose end date is at or after
  \<open>new Date()\<close>, the error of status 403 is passed to \<open>next\<close> and no token is
  issued; when there is such a record, the response holds an access and a refresh
  token. For any other role the response holds both tokens, whatever the records.
\<close>

theorem loginMobile_guest_needs_valid_event:
  assumes "body ''email'' = Some (JStr em)" and "em \<noteq> []"
    and "body ''password'' = Some (JStr pw)" and "pw \<noteq> []"
    and "\<not> rejects e UserFindOne"
    and "findOne (\<lambda>u. email u = em) (users s) = Some u"
    and "emailVerified u"
    and "bcryptCompare e pw (password u)"
  shows "(role u = Guest \<and> \<not> rejects e EventAttendeeFind \<and>
            \<not> (\<exists>a \<in> set (eventAttendees s). attendeeUserId a = uid u \<and>
                 (\<exists>ev d. findOne (\<lambda>ev. eventId ev = attendeeEventId a) (events s) = Some ev \<and>
                    isActive ev \<and> endDate ev = Some d \<and> d \<ge> now e)) \<longrightarrow>
          loginMobile e body s =
            (Next (AppError ''User must have an active event with a valid end date to log in.''
               (Some 403)), s)) \<and>
         (role u = Guest \<and> \<not> rejects e EventAttendeeFind \<and>
            (\<exists>a \<in> set (eventAttendees s). attendeeUserId a = uid u \<and>
                 (\<exists>ev d. findOne (\<lambda>ev. eventId ev = attendeeEventId a) (events s) = Some ev \<and>
                    isActive ev \<and> endDate ev = Some d \<and> d \<ge> now e)) \<longrightarrow>
          loginMobile e body s =
            (Json 200 [(''accessToken'', FStr (generateAccessToken e u)),
                       (''refreshToken'', FStr (generateRefreshToken e u))], s)) \<and>
         (role u \<noteq> Guest \<longrightarrow>
          loginMobile e body s =
            (Json 200 [(''accessToken'', FStr (generateAccessToken e u)),
                       (''refreshToken'', FStr (generateRefreshToken e u))], s))"
proof -
  have found: "findOne (\<lambda>u. matches (body ''email'') (email u)) (users s) = Some u"
    using assms(6) by (simp add: assms(1) matches_JStr)
  have pm: "passwordMatch e (body ''password'') (password u) = Inr True"
    using assms(3,8) by (simp add: passwordMatch_def)
  have tr: "truthy (body ''email'')" "truthy (body ''password'')"
    using assms(1-4) by simp_all
  show ?thesis
    using found pm tr assms(5,7) hasValidEvent_iff [of "now e" s "uid u"]
    by (simp add: loginMobile_def asyncWrapper_def tokensBody_def Let_def)
qed

theorem loginMobile_guest_needs_valid_event_witness:
  "loginMobile exEnv (obj [(''email'', JStr ''g@x.io''), (''password'', JStr ''guestpass'')]) exStore =
     (Json 200 [(''accessToken'', FStr ''A.u1''), (''refreshToken'', FStr ''R.u1'')], exStore) \<and>
   loginMobile (exEnv\<lparr>now := 2001\<rparr>)
       (obj [(''email'', JStr ''g@x.io''), (''password'', JStr ''guestpass'')]) exStore =
     (Next (AppError ''User must have an active event with a valid end date to log in.''
        (Some 403)), exStore) \<and>
   loginMobile (exEnv\<lparr>now := 2001\<rparr>)
       (obj [(''email'', JStr ''a@x.io''), (''password'', JStr ''adminpass'')]) exStore =
     (Json 200 [(''accessToken'', FStr ''A.u2''), (''refreshToken'', FStr ''R.u2'')], exStore)"
  using loginMobile_guest_needs_valid_event
      [of "obj [(''email'', JStr ''g@x.io''), (''password'', JStr ''guestpass'')]"
          "''g@x.io''" "''guestpass''" exEnv exStore exGuest]
    loginMobile_guest_needs_valid_event
      [of "obj [(''email'', JStr ''g@x.io''), (''password'', JStr ''guestpass'')]"
          "''g@x.io''" "''guestpass''" "exEnv\<lparr>now := 2001\<rparr>" exStore exGuest]
    loginMobile_guest_needs_valid_event
      [of "obj [(''email'', JStr ''a@x.io''), (''password'', JStr ''adminpass'')]"
          "''a@x.io''" "''adminpass''" "exEnv\<lparr>now := 2001\<rparr>" exStore exAdmin]
  by (simp add: obj_def exEnv_def exStore_def exGuest_def exAdmin_def exNew_def exAttendee_def
      findOne_def generateAccessToken_def generateRefreshToken_def)

section \<open>Refresh\<close>

text \<open>
  C5. The outcomes of \<open>refresh\<close>: 400 when \<open>refreshToken\<close> is missing (falsy);
  403 for every token whose verification against \<open>JWT_REFRESH_SECRET\<close> fails; 404
  when the token verifies and no stored user has the decoded id; otherwise a body whose
  only field is \<open>accessToken\<close>, a new access token for that user.
\<close>

theorem refresh_outcomes:
  "(\<not> truthy (body ''refreshToken'') \<longrightarrow>
      refresh e body s = (Next (AppError ''Refresh token required.'' (Some 400)), s)) \<and>
   (truthy (body ''refreshToken'') \<and>
    verifyToken e (body ''refreshToken'') (JWT_REFRESH_SECRET e) = Inl err \<longrightarrow>
      refresh e body s = (Next (AppError ''Invalid or expired refresh token.'' (Some 403)), s)) \<and>
   (truthy (body ''refreshToken'') \<and>
    verifyToken e (body ''refreshToken'') (JWT_REFRESH_SECRET e) = Inr decoded \<and>
    \<not> rejects e UserFindById \<and> (\<forall>u \<in> set (users s). decoded \<noteq> Some (uid u)) \<longrightarrow>
      refresh e body s = (Next (AppError ''User not found.'' (Some 404)), s)) \<and>
   (truthy (body ''refreshToken'') \<and>
    verifyToken e (body ''refreshToken'') (JWT_REFRESH_SECRET e) = Inr decoded \<and>
    \<not> rejects e UserFindById \<and> findOne (\<lambda>u. decoded = Some (uid u)) (users s) = Some u \<longrightarrow>
      refresh e body s = (Json 200 [(''accessToken'', FStr (generateAccessToken e u))], s))"
proof -
  have absent: "find (\<lambda>u. decoded = Some (uid u)) (users s) = None"
    if "\<forall>u \<in> set (users s). decoded \<noteq> Some (uid u)"
    using that by (simp add: find_None_iff_all)
  show ?thesis
    by (auto simp: refresh_def asyncWrapper_def findOne_def absent)
qed

theorem refresh_outcomes_witness:
  "refresh exEnv (obj []) exStore = (Next (AppError ''Refresh token required.'' (Some 400)), exStore) \<and>
   refresh exEnv (obj [(''refreshToken'', JStr ''A.u1'')]) exStore =
     (Next (AppError ''Invalid or expired refresh token.'' (Some 403)), exStore) \<and>
   refresh exEnv (obj [(''refreshToken'', JStr ''R.u7'')]) exStore =
     (Next (AppError ''User not found.'' (Some 404)), exStore) \<and>
   refresh exEnv (obj [(''refreshToken'', JStr ''R.u1'')]) exStore =
     (Json 200 [(''accessToken'', FStr ''A.u1'')], exStore)"
  using refresh_outcomes [where body = "obj []" and e = exEnv and s = exStore]
    refresh_outcomes [where body = "obj [(''refreshToken'', JStr ''A.u1'')]" and e = exEnv
      and s = exStore and err = JsonWebTokenError]
    refresh_outcomes [where body = "obj [(''refreshToken'', JStr ''R.u7'')]" and e = exEnv
      and s = exStore and decoded = "Some ''u7''"]
    refresh_outcomes [where body = "obj [(''refreshToken'', JStr ''R.u1'')]" and e = exEnv
      and s = exStore and decoded = "Some ''u1''" and u = exGuest]
  by (simp add: obj_def exEnv_def exStore_def exGuest_def exAdmin_def exNew_def exVerify_def
      verifyToken_def findOne_def generateAccessToken_def)


section \<open>Email verification\<close>

lemma verify_success:
  assumes "verify e query s = (Json c msg, s')"
  shows "truthy (query ''token'') \<and> truthy (query ''id'') \<and>
         \<not> rejects e UserTokenFindOne \<and> \<not> rejects e UserFindByIdAndUpdate \<and>
         (\<exists>ut. find (tokenFilter (query ''id'') (query ''token'')) (userTokens s) = Some ut) \<and>
         (\<exists>u. find (\<lambda>u. matches (query ''id'') (uid u)) (users s) = Some u) \<and>
         s' = s\<lparr>users := updateOne (\<lambda>u. matches (query ''id'') (uid u))
                            (\<lambda>u. u\<lparr>emailVerified := True\<rparr>) (users s)\<rparr>"
  using assms
  by (auto simp: verify_def asyncWrapper_def findOne_def
      split: if_splits sum.splits option.splits)

text \<open>
  C7. A \<open>verify\<close> that succeeds returns the store with one change: the first user
  with the id of the query has \<open>emailVerified\<close> set. The tokens are the ones before,
  so a second \<open>verify\<close> with the same query, whose two database calls do not reject,
  succeeds with status 200 again and changes nothing.
\<close>

theorem verify_keeps_token:
  assumes "verify e query s =
      (Json 200 [(''message'', FStr ''Email verified successfully.'')], s')"
    and "\<not> rejects e' UserTokenFindOne" and "\<not> rejects e' UserFindByIdAndUpdate"
  shows "s' = s\<lparr>users := updateOne (\<lambda>u. matches (query ''id'') (uid u))
                            (\<lambda>u. u\<lparr>emailVerified := True\<rparr>) (users s)\<rparr> \<and>
         (\<exists>u. findOne (\<lambda>u. matches (query ''id'') (uid u)) (users s) = Some u \<and>
              findOne (\<lambda>u. matches (query ''id'') (uid u)) (users s') =
                Some (u\<lparr>emailVerified := True\<rparr>)) \<and>
         userTokens s' = userTokens s \<and>
         verify e' query s' =
           (Json 200 [(''message'', FStr ''Email verified successfully.'')], s')"
proof -
  let ?p = "\<lambda>u. matches (query ''id'') (uid u)"
  let ?f = "\<lambda>u::user. u\<lparr>emailVerified := True\<rparr>"
  note ok = verify_success [OF assms(1)]
  from ok have s': "s' = s\<lparr>users := updateOne ?p ?f (users s)\<rparr>" by simp
  from ok obtain u where u: "find ?p (users s) = Some u" by blast
  from ok obtain ut where
    ut: "find (tokenFilter (query ''id'') (query ''token'')) (userTokens s) = Some ut" by blast
  have after: "find ?p (updateOne ?p ?f (users s)) = Some (?f u)"
    using u by (simp add: find_updateOne)
  have idem: "updateOne ?p ?f (updateOne ?p ?f (users s)) = updateOne ?p ?f (users s)"
    by (rule updateOne_idem) simp_all
  have again: "verify e' query s' =
      (Json 200 [(''message'', FStr ''Email verified successfully.'')], s')"
    using ok assms(2,3) ut after idem
    by (simp add: verify_def asyncWrapper_def findOne_def s')
  show ?thesis
    using s' u after again by (simp add: findOne_def)
qed

theorem verify_keeps_token_witness:
  "userTokens (snd (verify exEnv (obj [(''token'', JStr ''t3''), (''id'', JStr ''u3'')]) exStore)) =
     userTokens exStore \<and>
   verify exEnv (obj [(''token'', JStr ''t3''), (''id'', JStr ''u3'')])
     (snd (verify exEnv (obj [(''token'', JStr ''t3''), (''id'', JStr ''u3'')]) exStore)) =
     (Json 200 [(''message'', FStr ''Email verified successfully.'')],
      exStore\<lparr>users := [exGuest, exAdmin, exNew\<lparr>emailVerified := True\<rparr>]\<rparr>)"
  using verify_keeps_token
    [where e = exEnv and e' = exEnv and s = exStore
       and query = "obj [(''token'', JStr ''t3''), (''id'', JStr ''u3'')]"
       and s' = "exStore\<lparr>users := [exGuest, exAdmin, exNew\<lparr>emailVerified := True\<rparr>]\<rparr>"]
  by (simp add: verify_def asyncWrapper_def findOne_def tokenFilter_def matches_def obj_def
      exEnv_def exStore_def exGuest_def exAdmin_def exNew_def)

section \<open>Password reset\<close>

lemma resetPassword_success:
  assumes "resetPassword e body s = (Json c msg, s')"
  shows "truthy (body ''id'') \<and> truthy (body ''token'') \<and> truthy (body ''newPassword'') \<and>
         lengthOutOfRange (body ''newPassword'') = Inr False \<and>
         \<not> rejects e UserTokenFindOne \<and> \<not> rejects e UserFindByIdAndUpdate \<and>
         \<not> rejects e UserTokenDeleteOne \<and>
         (\<exists>ut. find (tokenFilter (body ''id'') (body ''token'')) (userTokens s) = Some ut) \<and>
         (\<exists>u. find (\<lambda>u. matches (body ''id'') (uid u)) (users s) = Some u) \<and>
         s' = s\<lparr>users := updateOne (\<lambda>u. matches (body ''id'') (uid u))
                   (\<lambda>u. u\<lparr>password := passwordOnUpdate e (body ''newPassword'')\<rparr>) (users s),
                 userTokens := deleteOne (tokenFilter (body ''id'') (body ''token''))
                   (userTokens s)\<rparr>"
  using assms
  by (auto simp: resetPassword_def asyncWrapper_def findOne_def Let_def
      split: if_splits sum.splits option.splits bool.splits)


text \<open>
  C2. A \<open>resetPassword\<close> that succeeds removes the first token record that matches
  the id and the token of the body. In a store where at most one record matched them
  (the data model keys a token record by the two), no record matches them any more; a
  second request with the same id and token and a password of 8 to 25 code units,
  whose token lookup does not reject, gets the error of status 400
  \<open>Invalid or expired token.\<close> and returns the store as it was, password included.
\<close>

theorem resetPassword_consumes_token:
  assumes "resetPassword e body s =
      (Json 200 [(''message'', FStr ''Password reset successfully.'')], s')"
    and "length (filter (tokenFilter (body ''id'') (body ''token'')) (userTokens s)) \<le> 1"
    and "body' ''id'' = body ''id''" and "body' ''token'' = body ''token''"
    and "body' ''newPassword'' = Some (JStr p')" and "8 \<le> length p'" and "length p' \<le> 25"
    and "\<not> rejects e' UserTokenFindOne"
  shows "userTokens s' =
           deleteOne (tokenFilter (body ''id'') (body ''token'')) (userTokens s) \<and>
         findOne (tokenFilter (body ''id'') (body ''token'')) (userTokens s') = None \<and>
         resetPassword e' body' s' = (Next (AppError ''Invalid or expired token.'' (Some 400)), s')"
proof -
  let ?t = "tokenFilter (body ''id'') (body ''token'')"
  note ok = resetPassword_success [OF assms(1)]
  from ok have toks: "userTokens s' = deleteOne ?t (userTokens s)" by simp
  have gone: "find ?t (userTokens s') = None"
    unfolding toks using assms(2) by (rule find_deleteOne_single)
  have len: "lengthOutOfRange (body' ''newPassword'') = Inr False"
    using assms(5-7) by (simp add: lengthOutOfRange_def)
  have tr: "truthy (body' ''newPassword'')"
    using assms(5,6) by auto
  have "resetPassword e' body' s' =
      (Next (AppError ''Invalid or expired token.'' (Some 400)), s')"
    using ok gone len tr assms(3,4,8)
    by (simp add: resetPassword_def asyncWrapper_def findOne_def)
  with gone toks show ?thesis by (simp add: findOne_def)
qed

theorem resetPassword_consumes_token_witness:
  "resetPassword exEnv (obj [(''id'', JStr ''u1''), (''token'', JStr ''t1''),
       (''newPassword'', JStr ''another1'')])
     (snd (resetPassword exEnv (obj [(''id'', JStr ''u1''), (''token'', JStr ''t1''),
       (''newPassword'', JStr ''brandnew'')]) exStore)) =
   (Next (AppError ''Invalid or expired token.'' (Some 400)),
    exStore\<lparr>users := [exGuest\<lparr>password := ''#brandnew''\<rparr>, exAdmin, exNew],
            userTokens := [\<lparr>userId = ''u3'', token = ''t3''\<rparr>]\<rparr>)"
  using resetPassword_consumes_token
    [where e = exEnv and e' = exEnv and s = exStore
       and body = "obj [(''id'', JStr ''u1''), (''token'', JStr ''t1''),
             (''newPassword'', JStr ''brandnew'')]"
       and body' = "obj [(''id'', JStr ''u1''), (''token'', JStr ''t1''),
             (''newPassword'', JStr ''another1'')]"
       and p' = "''another1''"
       and s' = "exStore\<lparr>users := [exGuest\<lparr>password := ''#brandnew''\<rparr>, exAdmin, exNew],
            userTokens := [\<lparr>userId = ''u3'', token = ''t3''\<rparr>]\<rparr>"]
  by (simp add: resetPassword_def asyncWrapper_def findOne_def tokenFilter_def matches_def obj_def
      lengthOutOfRange_def exEnv_def exStore_def exGuest_def exAdmin_def exNew_def)





section \<open>Attendee service: views\<close>

text \<open>
  C9, as stated, fails for the deletion: \<open>deleteAttendeeById\<close> returns the record
  as it was stored, with neither path populated.
\<close>

theorem deleteAttendeeById_counterexample:
  "fst (deleteAttendeeById exEnv ''a1'' exStore) =
     Inr (Some \<lparr>attendee = exAttendee, user = NotJoined, event = NotJoined\<rparr>) \<and>
   \<not> joinedView exStore \<lparr>attendee = exAttendee, user = NotJoined, event = NotJoined\<rparr>"
  by (simp add: deleteAttendeeById_def joinedView_def unpopulated_def findOne_def
      exEnv_def exStore_def exAttendee_def)

lemma joinedView_populate:
  "joinedView s (populateEventPath s (populateUserPath s (unpopulated a)))"
  by (simp add: joinedView_def populateEventPath_def populateUserPath_def unpopulated_def
      populateEvent_def)

lemma attendee_populate:
  "attendee (populateEventPath s (populateUserPath s (unpopulated a))) = a"
  by (simp add: populateEventPath_def populateUserPath_def unpopulated_def)

text \<open>
  C9, amended. \<open>getAllAttendees\<close> (with or without the filter on \<open>isApproved\<close>),
  \<open>getAttendeeById\<close> and \<open>updateAttendeeApprovalStatus\<close> return records joined
  with the user and the event they refer to; \<open>deleteAttendeeById\<close> returns the
  record that it removed with its references not populated.
\<close>

theorem attendee_operations_views:
  "(getAllAttendees e approved s = Inr vs \<longrightarrow>
      (\<forall>v \<in> set vs. joinedView s v) \<and>
      map attendee vs = filter (approvalFilter approved) (eventAttendees s)) \<and>
   (getAttendeeById e i s = Inr (Some v) \<longrightarrow>
      joinedView s v \<and> findOne (\<lambda>a. attendeeId a = i) (eventAttendees s) = Some (attendee v)) \<and>
   (updateAttendeeApprovalStatus e i b s = (Inr (Some v), s') \<longrightarrow>
      joinedView s v \<and> attendeeId (attendee v) = i \<and> isApproved (attendee v) = Some b) \<and>
   (deleteAttendeeById e i s = (Inr (Some v), s') \<longrightarrow>
      user v = NotJoined \<and> event v = NotJoined \<and>
      findOne (\<lambda>a. attendeeId a = i) (eventAttendees s) = Some (attendee v))"
proof (intro conjI impI)
  assume "getAllAttendees e approved s = Inr vs"
  then have vs: "vs = map (\<lambda>a. populateEventPath s (populateUserPath s (unpopulated a)))
                  (filter (approvalFilter approved) (eventAttendees s))"
    by (auto simp: getAllAttendees_def split: if_splits)
  show "\<forall>v \<in> set vs. joinedView s v"
    by (auto simp: vs joinedView_populate)
  show "map attendee vs = filter (approvalFilter approved) (eventAttendees s)"
    by (simp add: vs attendee_populate comp_def)
next
  assume "getAttendeeById e i s = Inr (Some v)"
  then obtain a where a: "findOne (\<lambda>a. attendeeId a = i) (eventAttendees s) = Some a"
    and v: "v = populateEventPath s (populateUserPath s (unpopulated a))"
    by (auto simp: getAttendeeById_def split: if_splits)
  show "joinedView s v" by (simp add: v joinedView_populate)
  show "findOne (\<lambda>a. attendeeId a = i) (eventAttendees s) = Some (attendee v)"
    by (simp add: a v attendee_populate)
next
  let ?s1 = "s\<lparr>eventAttendees :=
                     updateOne (\<lambda>a. attendeeId a = i) (\<lambda>a. a\<lparr>isApproved := Some b\<rparr>)
                       (eventAttendees s)\<rparr>"
  assume "updateAttendeeApprovalStatus e i b s = (Inr (Some v), s')"
  then obtain a where
    a: "find (\<lambda>a. attendeeId a = i)
         (updateOne (\<lambda>a. attendeeId a = i) (\<lambda>a. a\<lparr>isApproved := Some b\<rparr>) (eventAttendees s)) = Some a"
    and v: "v = populateEventPath ?s1 (populateUserPath ?s1 (unpopulated a))"
    by (auto simp: updateAttendeeApprovalStatus_def Let_def findOne_def split: if_splits)
  from a obtain a0 where a0: "a = a0\<lparr>isApproved := Some b\<rparr>" "attendeeId a0 = i"
    by (auto simp: find_updateOne dest: find_Some_iff [THEN iffD1])
  have "joinedView ?s1 v" by (simp add: v joinedView_populate)
  then show "joinedView s v" by (simp add: joinedView_def)
  show "attendeeId (attendee v) = i" by (simp add: v attendee_populate a0)
  show "isApproved (attendee v) = Some b" by (simp add: v attendee_populate a0)
next
  assume "deleteAttendeeById e i s = (Inr (Some v), s')"
  then obtain a where a: "findOne (\<lambda>a. attendeeId a = i) (eventAttendees s) = Some a"
    and v: "v = unpopulated a"
    by (auto simp: deleteAttendeeById_def split: if_splits)
  show "user v = NotJoined" "event v = NotJoined" by (simp_all add: v unpopulated_def)
  show "findOne (\<lambda>a. attendeeId a = i) (eventAttendees s) = Some (attendee v)"
    by (simp add: a v unpopulated_def)
qed

theorem attendee_operations_views_witness:
  "joinedView exStore
     \<lparr>attendee = exAttendee, user = Joined (Some exGuest),
      event = Joined (Some \<lparr>eventId = ''e1'', isActive = True, endDate = Some 2000\<rparr>)\<rparr> \<and>
   joinedView exStore
     \<lparr>attendee = exAttendee\<lparr>isApproved := Some True\<rparr>, user = Joined (Some exGuest),
      event = Joined (Some \<lparr>eventId = ''e1'', isActive = True, endDate = Some 2000\<rparr>)\<rparr> \<and>
   user (unpopulated exAttendee) = NotJoined \<and> event (unpopulated exAttendee) = NotJoined"
proof -
  let ?ev = "\<lparr>eventId = ''e1'', isActive = True, endDate = Some 2000\<rparr>"
  let ?v = "\<lparr>attendee = exAttendee, user = Joined (Some exGuest), event = Joined (Some ?ev)\<rparr>"
  let ?w = "\<lparr>attendee = exAttendee\<lparr>isApproved := Some True\<rparr>, user = Joined (Some exGuest),
             event = Joined (Some ?ev)\<rparr>"
  let ?s1 = "exStore\<lparr>eventAttendees := [exAttendee\<lparr>isApproved := Some True\<rparr>]\<rparr>"
  let ?s2 = "exStore\<lparr>eventAttendees := []\<rparr>"
  have h1: "getAllAttendees exEnv None exStore = Inr [?v]"
    by (simp add: getAllAttendees_def approvalFilter_def populateEventPath_def
        populateUserPath_def populateEvent_def unpopulated_def findOne_def
        exEnv_def exStore_def exAttendee_def exGuest_def)
  have h2: "getAttendeeById exEnv ''a1'' exStore = Inr (Some ?v)"
    by (simp add: getAttendeeById_def populateEventPath_def
        populateUserPath_def populateEvent_def unpopulated_def findOne_def
        exEnv_def exStore_def exAttendee_def exGuest_def)
  have h3: "updateAttendeeApprovalStatus exEnv ''a1'' True exStore = (Inr (Some ?w), ?s1)"
    by (simp add: updateAttendeeApprovalStatus_def populateEventPath_def
        populateUserPath_def populateEvent_def unpopulated_def findOne_def
        exEnv_def exStore_def exAttendee_def exGuest_def)
  have h4: "deleteAttendeeById exEnv ''a1'' exStore = (Inr (Some (unpopulated exAttendee)), ?s2)"
    by (simp add: deleteAttendeeById_def findOne_def exEnv_def exStore_def exAttendee_def)
  from attendee_operations_views
    [where e = exEnv and approved = None and s = exStore and vs = "[?v]" and i = "''a1''"
       and v = ?v and b = True and s' = ?s1] h1 h2
  have a: "joinedView exStore ?v" by blast
  from attendee_operations_views
    [where e = exEnv and approved = None and s = exStore and vs = "[?v]" and i = "''a1''"
       and v = ?w and b = True and s' = ?s1] h3
  have b: "joinedView exStore ?w" by blast
  from attendee_operations_views
    [where e = exEnv and approved = None and s = exStore and vs = "[?v]" and i = "''a1''"
       and v = "unpopulated exAttendee" and b = True and s' = ?s2] h4
  have c: "user (unpopulated exAttendee) = NotJoined \<and> event (unpopulated exAttendee) = NotJoined"
    by blast
  from a b c show ?thesis by simp
qed

end
